theory Spec2Isabelle
  imports Complex_Main "HOL-Library.Product_Lexorder" "HOL-Library.List_Lexorder"
    "HOL-Library.Char_ord"
begin

section \<open>Time\<close>

text \<open>
  A Go \<open>time.Time\<close> of the server process is an integer number of nanoseconds, and a
  \<open>time.Duration\<close> is an integer number of nanoseconds, as in package \<open>time\<close>.
\<close>

type_synonym time = int
type_synonym duration = int

definition Second :: duration where
  "Second = 1000000000"

definition Minute :: duration where
  "Minute = 60 * Second"

section \<open>Data model\<close>

text \<open>
  The table \<open>shares\<close> of \<open>initDB\<close>: \<open>code TEXT PRIMARY KEY\<close>, \<open>data TEXT NOT NULL\<close>,
  \<open>expires_at DATETIME NOT NULL\<close>, \<open>created_at DATETIME DEFAULT CURRENT_TIMESTAMP\<close>.
  The two datetime columns hold values of the database, of a type \<open>'v\<close> that the
  database compares (a linear order): \<open>main.go\<close> hands a \<open>time.Time\<close> to the driver
  and never sees the stored form. A table is the list of its rows, in insertion order.
\<close>

record 'v share_row =
  code :: string
  data :: string
  expires_at :: 'v
  created_at :: 'v

type_synonym 'v table = "'v share_row list"

text \<open>\<open>ShareRequest\<close>, the decoded body of \<open>POST /share\<close>.\<close>

record ShareRequest =
  Code :: string
  Data :: string
  ExpiresMinutes :: int

text \<open>
  What one request or one sweep sees of the world outside \<open>main.go\<close>: the clock of the
  server process (\<open>time.Now()\<close>), the clock of the database (\<open>datetime('now')\<close> and
  \<open>CURRENT_TIMESTAMP\<close>, a database value), and whether the database call fails with an
  error other than \<open>sql.ErrNoRows\<close>.
\<close>

record 'v env =
  proc_now :: time
  db_now :: 'v
  db_fails :: bool

text \<open>
  An HTTP response: the status code and the body. \<open>http.Error\<close> writes a text body,
  the handlers write JSON objects of string fields. \<open>expiresAt.Format(time.RFC3339)\<close>
  prints whole seconds only, so the printed value is the expiry cut to the second.
  \<open>MovedPermanently\<close> is the router's own answer 301 with its \<open>Location\<close> header.
\<close>

datatype jvalue = Str string | RFC3339 int

datatype body = NoBody | Text string | Json "(string \<times> jvalue) list"

datatype response = Response nat body | MovedPermanently string

definition StatusOK :: nat where "StatusOK = 200"
definition StatusCreated :: nat where "StatusCreated = 201"
definition StatusMovedPermanently :: nat where "StatusMovedPermanently = 301"
definition StatusBadRequest :: nat where "StatusBadRequest = 400"
definition StatusNotFound :: nat where "StatusNotFound = 404"
definition StatusMethodNotAllowed :: nat where "StatusMethodNotAllowed = 405"
definition StatusConflict :: nat where "StatusConflict = 409"
definition StatusTooManyRequests :: nat where "StatusTooManyRequests = 429"
definition StatusInternalServerError :: nat where "StatusInternalServerError = 500"

section \<open>The SQL statements\<close>

text \<open>\<open>SELECT EXISTS(SELECT 1 FROM shares WHERE code = ?)\<close>\<close>

definition select_exists :: "string \<Rightarrow> 'v table \<Rightarrow> bool" where
  "select_exists c t = (filter (\<lambda>r. code r = c) t \<noteq> [])"

text \<open>
  \<open>INSERT OR REPLACE INTO shares (code, data, expires_at) VALUES (?, ?, ?)\<close>: the rows
  that conflict on the primary key are deleted, then the row is inserted; \<open>created_at\<close>
  takes its default, the database's current timestamp.
\<close>

definition insert_or_replace ::
  "'v \<Rightarrow> string \<Rightarrow> string \<Rightarrow> 'v \<Rightarrow> 'v table \<Rightarrow> 'v table" where
  "insert_or_replace now c d e t =
     filter (\<lambda>r. code r \<noteq> c) t @ [\<lparr>code = c, data = d, expires_at = e, created_at = now\<rparr>]"

text \<open>
  \<open>SELECT code, data, expires_at FROM shares WHERE code = ? AND expires_at > datetime('now')\<close>
\<close>

definition select_live :: "'v::linorder \<Rightarrow> string \<Rightarrow> 'v table \<Rightarrow> 'v table" where
  "select_live now c t = filter (\<lambda>r. code r = c \<and> expires_at r > now) t"

text \<open>
  \<open>DELETE FROM shares WHERE expires_at < datetime('now')\<close>, with the number of rows
  affected.
\<close>

definition delete_expired :: "'v::linorder \<Rightarrow> 'v table \<Rightarrow> 'v table \<times> nat" where
  "delete_expired now t =
     (filter (\<lambda>r. \<not> expires_at r < now) t, length (filter (\<lambda>r. expires_at r < now) t))"

section \<open>The handlers of the store\<close>

text \<open>\<open>checkCodeHandler\<close>: 409 when a row has the code, 404 when none has.\<close>

definition checkCodeHandler :: "'v env \<Rightarrow> string \<Rightarrow> 'v table \<Rightarrow> response" where
  "checkCodeHandler e c t =
     (if db_fails e then Response StatusInternalServerError (Text ''Database error'')
      else if select_exists c t then Response StatusConflict (Text ''Code in use'')
      else Response StatusNotFound NoBody)"

text \<open>
  \<open>shareHandler\<close>. The body is \<open>None\<close> when it is not JSON. \<open>enc\<close> is the driver's
  conversion of the \<open>time.Time\<close> argument to the value the database stores.
  \<open>expiresMinutes\<close> is the constant 10 of the source: \<open>req.ExpiresMinutes\<close> is decoded
  and never read.
\<close>

definition shareHandler ::
  "(time \<Rightarrow> 'v) \<Rightarrow> 'v env \<Rightarrow> ShareRequest option \<Rightarrow> 'v table \<Rightarrow> response \<times> 'v table" where
  "shareHandler enc e b t =
     (case b of
        None \<Rightarrow> (Response StatusBadRequest (Text ''Invalid JSON''), t)
      | Some req \<Rightarrow>
          if Code req = [] \<or> Data req = [] then
            (Response StatusBadRequest (Text ''Missing code or data''), t)
          else
            let expiresMinutes = 10;
                expiresAt = proc_now e + expiresMinutes * Minute
            in if db_fails e then
                 (Response StatusInternalServerError (Text ''Database error''), t)
               else
                 (Response StatusCreated
                    (Json [(''status'', Str ''created''),
                           (''expires_at'', RFC3339 (expiresAt div Second))]),
                  insert_or_replace (db_now e) (Code req) (Data req) (enc expiresAt) t))"

text \<open>
  \<open>receiveHandler\<close>: \<open>QueryRow\<close> takes the first row of the result; no row is
  \<open>sql.ErrNoRows\<close> and answers 404, any other error answers 500.
\<close>

definition receiveHandler :: "'v::linorder env \<Rightarrow> string \<Rightarrow> 'v table \<Rightarrow> response" where
  "receiveHandler e c t =
     (if db_fails e then Response StatusInternalServerError (Text ''Database error'')
      else case select_live (db_now e) c t of
             [] \<Rightarrow> Response StatusNotFound (Text ''Code not found or expired'')
           | share # _ \<Rightarrow> Response StatusOK (Json [(''data'', Str (data share))]))"

text \<open>\<open>healthHandler\<close>\<close>

definition healthHandler :: response where
  "healthHandler = Response StatusOK (Json [(''status'', Str ''ok'')])"

text \<open>
  One tick of the loop of \<open>cleanupExpired\<close>, which is the store's \<open>purgeExpired\<close>: the
  table after the tick and the line it logs, if any. \<open>ra_fails\<close> says that
  \<open>result.RowsAffected()\<close> returns an error (the rows are deleted all the same).
\<close>

datatype log_line = CleanupError | FailedRowsAffected | CleanedUp nat

definition cleanupTick ::
  "'v::linorder env \<Rightarrow> bool \<Rightarrow> 'v table \<Rightarrow> 'v table \<times> log_line option" where
  "cleanupTick e ra_fails t =
     (if db_fails e then (t, Some CleanupError)
      else let (t', rowsAffected) = delete_expired (db_now e) t
           in if ra_fails then (t', Some FailedRowsAffected)
              else if rowsAffected > 0 then (t', Some (CleanedUp rowsAffected))
              else (t', None))"

text \<open>The loop over the ticks of the ticker, with the lines logged, oldest first.\<close>

fun cleanupExpired :: "('v::linorder env \<times> bool) list \<Rightarrow> 'v table \<Rightarrow> 'v table \<times> log_line list" where
  "cleanupExpired [] t = (t, [])"
| "cleanupExpired ((e, ra_fails) # ticks) t =
     (let (t', l) = cleanupTick e ra_fails t;
          (t'', ls) = cleanupExpired ticks t'
      in (t'', (case l of None \<Rightarrow> [] | Some x \<Rightarrow> [x]) @ ls))"

section \<open>The stored form of a time\<close>

text \<open>
  Not part of \<open>main.go\<close>: what the database holds in \<open>expires_at\<close> and what
  \<open>datetime('now')\<close> is. Both are texts, and the database compares texts byte by byte.
  Both begin with the 19 characters \<open>YYYY-MM-DD HH:MM:SS\<close> of a second, so a text is
  the pair of that second (its count, which orders as the 19 characters do for years of
  four digits) and the characters after the first 19, and the order of texts is the
  lexicographic order of the pairs.

  \<open>datetime('now')\<close> and \<open>CURRENT_TIMESTAMP\<close> are the 19 characters of the second of
  the database's clock, in UTC, and nothing more. The driver writes a \<open>time.Time\<close>
  argument as its \<open>String()\<close>: the second of the wall clock in the zone of the process,
  then the fraction of the second (none when it is zero, trailing zeros cut), a space
  and the zone as offset and abbreviation. The reading of the monotonic clock that
  \<open>String()\<close> prints after the zone is left out: it makes the text longer and nothing
  else.
\<close>

type_synonym dbtext = "int \<times> string"

record zone =
  zoneOffset :: duration
  zoneName :: string

definition UTC :: zone where
  "UTC = \<lparr>zoneOffset = 0, zoneName = ''+0000 UTC''\<rparr>"

definition datetime_now :: "time \<Rightarrow> dbtext" where
  "datetime_now now = (now div Second, [])"

definition digit :: "int \<Rightarrow> char" where
  "digit d = ''0123456789'' ! nat (d mod 10)"

definition fraction :: "duration \<Rightarrow> string" where
  "fraction ns =
     (if ns = 0 then []
      else CHR ''.'' #
           rev (dropWhile (\<lambda>c. c = CHR ''0'')
                  (rev (map (\<lambda>k. digit (ns div 10 ^ k)) [8, 7, 6, 5, 4, 3, 2, 1, 0 :: nat]))))"

definition timeString :: "zone \<Rightarrow> time \<Rightarrow> dbtext" where
  "timeString z t =
     ((t + zoneOffset z) div Second,
      fraction ((t + zoneOffset z) mod Second) @ '' '' @ zoneName z)"

section \<open>The token bucket\<close>

text \<open>
  Modelled from the spec: the limiter type of package \<open>golang.org/x/time/rate\<close>
  (\<open>rate.Limit\<close>, \<open>rate.Every\<close>, \<open>rate.NewLimiter\<close>, \<open>Limiter.Allow\<close>), which
  \<open>main.go\<close> imports and whose source is not part of the repository. A limiter has a
  refill rate in tokens per second and a burst capacity; it is created full; \<open>Allow\<close>
  returns true and
  consumes one token if the bucket holds at least one token at call time, counting the
  continuous refill since the last consumption up to the capacity, and returns false
  and leaves the bucket as it is otherwise. \<open>rate.Every d\<close> is the rate of one token every
  \<open>d\<close> (no limit at all when \<open>d\<close> is not positive). Token counts are exact rationals
  here, where the package computes in floating point.
\<close>

datatype Limit = Inf | PerSecond rat

record Limiter =
  limit :: Limit
  burst :: int
  tokens :: rat
  last :: time

definition Every :: "duration \<Rightarrow> Limit" where
  "Every interval =
     (if interval \<le> 0 then Inf else PerSecond (1 / (of_int interval / of_int Second)))"

definition tokensFromDuration :: "rat \<Rightarrow> duration \<Rightarrow> rat" where
  "tokensFromDuration r d = (of_int d / of_int Second) * r"

definition NewLimiter :: "Limit \<Rightarrow> int \<Rightarrow> Limiter" where
  "NewLimiter r b = \<lparr>limit = r, burst = b, tokens = of_int b, last = 0\<rparr>"

text \<open>The tokens in the bucket at time \<open>t\<close>, for the rate \<open>r\<close>.\<close>

definition advance :: "rat \<Rightarrow> Limiter \<Rightarrow> time \<Rightarrow> rat" where
  "advance r lm t =
     (let last' = (if t < last lm then t else last lm);
          elapsed = t - last';
          tokens' = tokens lm + tokensFromDuration r elapsed
      in if tokens' > of_int (burst lm) then of_int (burst lm) else tokens')"

definition Allow :: "time \<Rightarrow> Limiter \<Rightarrow> bool \<times> Limiter" where
  "Allow t lm =
     (case limit lm of
        Inf \<Rightarrow> (True, lm)
      | PerSecond r \<Rightarrow>
          let tokens' = advance r lm t
          in if 1 \<le> tokens' then (True, lm\<lparr>last := t, tokens := tokens' - 1\<rparr>)
             else (False, lm))"

section \<open>The registry of limiters\<close>

text \<open>
  \<open>rateLimiters\<close> is a \<open>map[string]*rate.Limiter\<close>: the map holds pointers, so the
  limiters live in a heap (the list of all limiters ever made, a pointer being a
  position in it) and the map takes a client address to a pointer.
\<close>

record registry =
  rateLimiters :: "string \<rightharpoonup> nat"
  heap :: "Limiter list"

definition emptyRegistry :: registry where
  "emptyRegistry = \<lparr>rateLimiters = Map.empty, heap = []\<rparr>"

text \<open>
  \<open>getRateLimiter\<close> has two critical sections. The first, under \<open>RLock\<close>, reads the
  map. The second, under \<open>Lock\<close> and entered when the first found nothing, makes a
  limiter and stores it under the address; it does not read the map again.
\<close>

definition lookupLimiter :: "string \<Rightarrow> registry \<Rightarrow> nat option" where
  "lookupLimiter ip g = rateLimiters g ip"

definition installLimiter :: "string \<Rightarrow> registry \<Rightarrow> nat \<times> registry" where
  "installLimiter ip g =
     (let limiter = length (heap g)
      in (limiter,
          \<lparr>rateLimiters = (rateLimiters g)(ip \<mapsto> limiter),
           heap = heap g @ [NewLimiter (Every Minute) 10]\<rparr>))"

text \<open>A call of \<open>getRateLimiter\<close> that no other call interleaves with.\<close>

definition getRateLimiter :: "string \<Rightarrow> registry \<Rightarrow> nat \<times> registry" where
  "getRateLimiter ip g =
     (case lookupLimiter ip g of
        Some limiter \<Rightarrow> (limiter, g)
      | None \<Rightarrow> installLimiter ip g)"

text \<open>
  \<open>limiter.Allow()\<close> through the pointer, at the process's \<open>time.Now()\<close>. The pointer
  is one that \<open>getRateLimiter\<close> returned, so it is a position of the heap
  (\<open>pointers_ok\<close> below, an invariant of the registry).
\<close>

definition limiterAllow :: "time \<Rightarrow> nat \<Rightarrow> registry \<Rightarrow> bool \<times> registry" where
  "limiterAllow t limiter g =
     (let (ok, lm') = Allow t (heap g ! limiter)
      in (ok, g\<lparr>heap := (heap g)[limiter := lm']\<rparr>))"

definition pointers_ok :: "registry \<Rightarrow> bool" where
  "pointers_ok g = (ran (rateLimiters g) \<subseteq> {..<length (heap g)})"

text \<open>
  \<open>rateLimitMiddleware\<close>, around a handler \<open>next\<close> that works on a state \<open>'s\<close>.
\<close>

definition rateLimitMiddleware ::
  "('s \<Rightarrow> response \<times> 's) \<Rightarrow> time \<Rightarrow> string \<Rightarrow> registry \<times> 's \<Rightarrow> response \<times> registry \<times> 's" where
  "rateLimitMiddleware next now ip gs =
     (let (g, s) = gs;
          (limiter, g1) = getRateLimiter ip g;
          (ok, g2) = limiterAllow now limiter g1
      in if \<not> ok then
           (Response StatusTooManyRequests (Text ''Rate limit exceeded''), g2, s)
         else let (resp, s') = next s in (resp, g2, s'))"

subsection \<open>Concurrent calls of getRateLimiter\<close>

text \<open>
  Each critical section is atomic (the mutex excludes the others), and the sections of
  concurrent calls interleave in any order. A call is before its read section, between
  the two sections after a miss, or has returned a pointer.
\<close>

datatype call = AtRLock string | AtLock string | Returned nat

definition step_call :: "call \<Rightarrow> registry \<Rightarrow> call \<times> registry" where
  "step_call c g =
     (case c of
        AtRLock ip \<Rightarrow>
          (case lookupLimiter ip g of
             Some limiter \<Rightarrow> (Returned limiter, g)
           | None \<Rightarrow> (AtLock ip, g))
      | AtLock ip \<Rightarrow> (let (limiter, g') = installLimiter ip g in (Returned limiter, g'))
      | Returned limiter \<Rightarrow> (Returned limiter, g))"

text \<open>
  A schedule names, step by step, the call that runs its next section (a name that is
  no call of the list is skipped).
\<close>

fun run_calls :: "nat list \<Rightarrow> call list \<times> registry \<Rightarrow> call list \<times> registry" where
  "run_calls [] cg = cg"
| "run_calls (i # sched) (cs, g) =
     (if i < length cs then
        let (c', g') = step_call (cs ! i) g in run_calls sched (cs[i := c'], g')
      else run_calls sched (cs, g))"

section \<open>The router\<close>

text \<open>
  The routes that \<open>main\<close> registers on the \<open>mux\<close> router, in order, and
  \<open>r.Use(rateLimitMiddleware)\<close>. The router first cleans the path (\<open>SkipClean\<close> is not
  set) and answers 301 itself when the path changes: empty segments and \<open>.\<close> segments
  go, a \<open>..\<close> segment goes with the segment before it, a trailing slash stays. It
  wraps the handler of a matched route in the middleware, and answers 404 or 405
  itself when no route matches. A \<open>{code}\<close> segment matches any non-empty text
  without a slash.
\<close>

record request =
  Method :: string
  Path :: string
  RemoteAddr :: string
  Body :: "ShareRequest option"

datatype route = HealthRoute | CheckRoute string | ShareRoute | ReceiveRoute string

datatype routeMatch = Redirect string | NoMatch | MethodMismatch | Matched route

fun splitSlash :: "string \<Rightarrow> string list" where
  "splitSlash [] = [[]]"
| "splitSlash (c # cs) =
     (if c = CHR ''/'' then [] # splitSlash cs
      else case splitSlash cs of [] \<Rightarrow> [[c]] | s # ss \<Rightarrow> (c # s) # ss)"

text \<open>The segments that stay, with the segments kept so far in \<open>acc\<close>, last first.\<close>

fun cleanSegs :: "string list \<Rightarrow> string list \<Rightarrow> string list" where
  "cleanSegs acc [] = rev acc"
| "cleanSegs acc (s # ss) =
     (if s = [] \<or> s = ''.'' then cleanSegs acc ss
      else if s = ''..'' then cleanSegs (case acc of [] \<Rightarrow> [] | _ # a \<Rightarrow> a) ss
      else cleanSegs (s # acc) ss)"

text \<open>\<open>path.Clean\<close> of a path that begins with a slash.\<close>

definition pathClean :: "string \<Rightarrow> string" where
  "pathClean p =
     (case cleanSegs [] (splitSlash p) of
        [] \<Rightarrow> ''/''
      | s # ss \<Rightarrow> concat (map (\<lambda>x. CHR ''/'' # x) (s # ss)))"

definition cleanPath :: "string \<Rightarrow> string" where
  "cleanPath p =
     (case p of
        [] \<Rightarrow> ''/''
      | c # cs \<Rightarrow>
          let p' = (if c \<noteq> CHR ''/'' then CHR ''/'' # p else p);
              np = pathClean p'
          in if List.last p' = CHR ''/'' \<and> np \<noteq> ''/'' then np @ ''/'' else np)"

fun stripPrefix :: "string \<Rightarrow> string \<Rightarrow> string option" where
  "stripPrefix [] s = Some s"
| "stripPrefix (p # ps) [] = None"
| "stripPrefix (p # ps) (c # cs) = (if p = c then stripPrefix ps cs else None)"

definition isSegment :: "string \<Rightarrow> bool" where
  "isSegment s = (s \<noteq> [] \<and> CHR ''/'' \<notin> set s)"

definition matchPath :: "string \<Rightarrow> (string \<times> route) option" where
  "matchPath p =
     (if p = ''/health'' then Some (''GET'', HealthRoute)
      else case stripPrefix ''/check/'' p of
        Some c \<Rightarrow> (if isSegment c then Some (''GET'', CheckRoute c) else None)
      | None \<Rightarrow>
          if p = ''/share'' then Some (''POST'', ShareRoute)
          else case stripPrefix ''/receive/'' p of
            Some c \<Rightarrow> (if isSegment c then Some (''GET'', ReceiveRoute c) else None)
          | None \<Rightarrow> None)"

definition matchRoute :: "string \<Rightarrow> string \<Rightarrow> routeMatch" where
  "matchRoute m p =
     (if cleanPath p \<noteq> p then Redirect (cleanPath p)
      else case matchPath p of
        None \<Rightarrow> NoMatch
      | Some (m', r) \<Rightarrow> if m = m' then Matched r else MethodMismatch)"

definition handler ::
  "(time \<Rightarrow> 'v) \<Rightarrow> 'v::linorder env \<Rightarrow> request \<Rightarrow> route \<Rightarrow> 'v table \<Rightarrow> response \<times> 'v table" where
  "handler enc e rq r t =
     (case r of
        HealthRoute \<Rightarrow> (healthHandler, t)
      | CheckRoute c \<Rightarrow> (checkCodeHandler e c t, t)
      | ShareRoute \<Rightarrow> shareHandler enc e (Body rq) t
      | ReceiveRoute c \<Rightarrow> (receiveHandler e c t, t))"

definition serve ::
  "(time \<Rightarrow> 'v) \<Rightarrow> 'v::linorder env \<Rightarrow> request \<Rightarrow> registry \<times> 'v table
     \<Rightarrow> response \<times> registry \<times> 'v table" where
  "serve enc e rq gt =
     (case matchRoute (Method rq) (Path rq) of
        Redirect p \<Rightarrow> (MovedPermanently p, gt)
      | NoMatch \<Rightarrow> (Response StatusNotFound (Text ''404 page not found''), gt)
      | MethodMismatch \<Rightarrow> (Response StatusMethodNotAllowed NoBody, gt)
      | Matched r \<Rightarrow>
          rateLimitMiddleware (handler enc e rq r) (proc_now e) (RemoteAddr rq) gt)"

section \<open>Runs\<close>

text \<open>
  What happens to the table over time: a request reaches the handler of its route, or
  the ticker of \<open>cleanupExpired\<close> fires. \<open>run\<close> is the table after a sequence of such
  events, in order.
\<close>

datatype 'v event = Handle "'v env" request route | Tick "'v env" bool

fun after :: "(time \<Rightarrow> 'v) \<Rightarrow> 'v::linorder event \<Rightarrow> 'v table \<Rightarrow> 'v table" where
  "after enc (Handle e rq r) t = snd (handler enc e rq r t)"
| "after enc (Tick e ra_fails) t = fst (cleanupTick e ra_fails t)"

fun run :: "(time \<Rightarrow> 'v) \<Rightarrow> 'v::linorder event list \<Rightarrow> 'v table \<Rightarrow> 'v table" where
  "run enc [] t = t"
| "run enc (ev # evs) t = run enc evs (after enc ev t)"

text \<open>The answers of the server to a sequence of requests, each with its clocks.\<close>

fun serveAll ::
  "(time \<Rightarrow> 'v) \<Rightarrow> ('v::linorder env \<times> request) list \<Rightarrow> registry \<times> 'v table \<Rightarrow> response list" where
  "serveAll enc [] gt = []"
| "serveAll enc ((e, rq) # rqs) gt =
     (let (resp, gt') = serve enc e rq gt in resp # serveAll enc rqs gt')"

definition statusOf :: "response \<Rightarrow> nat" where
  "statusOf resp = (case resp of Response s b \<Rightarrow> s | MovedPermanently p \<Rightarrow> StatusMovedPermanently)"

text \<open>A health check of one client at process time \<open>t\<close>.\<close>

definition healthAt :: "time \<Rightarrow> int env \<times> request" where
  "healthAt t =
     (\<lparr>proc_now = t, db_now = t, db_fails = False\<rparr>,
      \<lparr>Method = ''GET'', Path = ''/health'', RemoteAddr = ''10.0.0.1:5000'', Body = None\<rparr>)"

text \<open>The answers of one limiter to calls of \<open>Allow\<close> at the given times, in order.\<close>

fun allows :: "time list \<Rightarrow> Limiter \<Rightarrow> bool list" where
  "allows [] lm = []"
| "allows (t # ts) lm = (let (ok, lm') = Allow t lm in ok # allows ts lm')"

section \<open>Evaluation rules\<close>

lemmas status_defs =
  StatusOK_def StatusCreated_def StatusMovedPermanently_def StatusBadRequest_def StatusNotFound_def
  StatusMethodNotAllowed_def StatusConflict_def StatusTooManyRequests_def
  StatusInternalServerError_def

lemmas text_defs =
  timeString_def datetime_now_def UTC_def fraction_def digit_def Minute_def Second_def

section \<open>The stored expiry\<close>

lemma shareHandler_ttl_irrelevant:
  "shareHandler enc e (Some (req\<lparr>ExpiresMinutes := m\<rparr>)) t = shareHandler enc e (Some req) t"
  by (simp add: shareHandler_def Let_def)

lemma shareHandler_created:
  assumes "Code req \<noteq> []" and "Data req \<noteq> []" and "\<not> db_fails e"
  shows "shareHandler enc e (Some req) t =
           (Response StatusCreated
              (Json [(''status'', Str ''created''),
                     (''expires_at'', RFC3339 ((proc_now e + 10 * Minute) div Second))]),
            insert_or_replace (db_now e) (Code req) (Data req) (enc (proc_now e + 10 * Minute)) t)"
  using assms by (simp add: shareHandler_def Let_def)

text \<open>
  Claim C1: a store request with requested ttl \<open>t\<close> stores \<open>now + t\<close> as the expiry (ten
  minutes only when no ttl is given) and returns it. The handler does not do this: a
  request for 5 minutes at process time 0 is stored with the expiry of 10 minutes, which
  is not \<open>0 + 5\<close> minutes, and 600 seconds is what the response prints.
\<close>

theorem share_ignores_requested_ttl:
  "shareHandler id \<lparr>proc_now = 0, db_now = 0 :: int, db_fails = False\<rparr>
     (Some \<lparr>Code = ''ABC1'', Data = ''blob'', ExpiresMinutes = 5\<rparr>) []
   = (Response StatusCreated
        (Json [(''status'', Str ''created''), (''expires_at'', RFC3339 600)]),
      [\<lparr>code = ''ABC1'', data = ''blob'', expires_at = 10 * Minute, created_at = 0\<rparr>])
   \<and> 10 * Minute \<noteq> 0 + 5 * Minute"
  by (simp add: shareHandler_def insert_or_replace_def Minute_def Second_def)

section \<open>Reading and checking a code\<close>

lemma pk_unique:
  "distinct (map code t) \<Longrightarrow> r \<in> set t \<Longrightarrow> r' \<in> set t \<Longrightarrow> code r = code r' \<Longrightarrow> r = r'"
  by (meson distinct_map inj_onD)

lemma select_live_expired:
  fixes now :: "'v::linorder"
  assumes "distinct (map code t)" and "r \<in> set t" and "code r = c" and "expires_at r \<le> now"
  shows "select_live now c t = []"
proof -
  have "\<not> (code r' = c \<and> now < expires_at r')" if "r' \<in> set t" for r'
  proof
    assume h: "code r' = c \<and> now < expires_at r'"
    with assms that have "r' = r" using pk_unique by metis
    with h assms(4) show False by auto
  qed
  then show ?thesis by (simp add: select_live_def filter_empty_conv)
qed

lemma select_exists_member: "r \<in> set t \<Longrightarrow> code r = c \<Longrightarrow> select_exists c t"
  by (auto simp: select_exists_def filter_empty_conv)

text \<open>
  The gate on the stored value, whatever the stored form: a row whose \<open>expires_at\<close> is
  not after the database's now is not read, and is still found by the existence check.
\<close>

lemma read_gated_on_stored_value:
  fixes e :: "'v::linorder env"
  assumes "distinct (map code t)" and "r \<in> set t" and "code r = c"
    and "expires_at r \<le> db_now e" and "\<not> db_fails e"
  shows "receiveHandler e c t = Response StatusNotFound (Text ''Code not found or expired'')
       \<and> checkCodeHandler e c t = Response StatusConflict (Text ''Code in use'')"
  using assms select_live_expired [OF assms(1-4)] select_exists_member [OF assms(2,3)]
  by (simp add: receiveHandler_def checkCodeHandler_def)

text \<open>
  The order of the two forms of text: the text that the driver wrote for the time \<open>t\<close>
  is after \<open>datetime('now')\<close> as long as the second of now is not after the second that
  the text prints, and before it from the next second on. The two are never equal.
\<close>

lemma Nil_less_append_Cons: "([] :: string) < xs @ c # ys"
  by (cases xs) simp_all

lemma now_less_stored:
  "(datetime_now n < timeString z t) = (n div Second \<le> (t + zoneOffset z) div Second)"
  by (auto simp add: datetime_now_def timeString_def Nil_less_append_Cons)


lemma stored_never_now: "timeString z t \<noteq> datetime_now n"
  by (simp add: datetime_now_def timeString_def)

lemma filter_code_distinct:
  "distinct (map code t) \<Longrightarrow> r \<in> set t \<Longrightarrow> filter (\<lambda>x. code x = code r) t = [r]"
proof (induction t)
  case Nil
  then show ?case by simp
next
  case (Cons a t)
  show ?case
  proof (cases "a = r")
    case True
    with Cons.prems have "\<forall>x \<in> set t. code x \<noteq> code r"
      by (metis distinct.simps(2) imageI list.simps(9) set_map)
    then have "filter (\<lambda>x. code x = code r) t = []" by (simp add: filter_empty_conv)
    with True show ?thesis by simp
  next
    case False
    with Cons.prems have in_t: "r \<in> set t" by simp
    with Cons.prems have "code a \<noteq> code r"
      by (metis distinct.simps(2) imageI list.simps(9) set_map)
    with Cons in_t show ?thesis by simp
  qed
qed

lemma select_live_distinct:
  fixes now :: "'v::linorder"
  assumes "distinct (map code t)" and "r \<in> set t"
  shows "select_live now (code r) t = (if now < expires_at r then [r] else [])"
proof -
  have "select_live now (code r) t =
          filter (\<lambda>x. now < expires_at x) (filter (\<lambda>x. code x = code r) t)"
    by (simp add: select_live_def conj_commute)
  with filter_code_distinct [OF assms] show ?thesis by (simp del: filter_filter)
qed




text \<open>
  For a process in UTC: from one second after the expiry on, the read answers not found.
\<close>

lemma read_closed_a_second_after_expiry:
  fixes e :: "dbtext env"
  assumes "distinct (map code t)" and "r \<in> set t" and "code r = c"
    and "expires_at r = timeString UTC expiresAt"
    and "db_now e = datetime_now now" and "\<not> db_fails e"
    and "expiresAt + Second \<le> now"
  shows "receiveHandler e c t = Response StatusNotFound (Text ''Code not found or expired'')"
proof -
  have "(expiresAt + Second) div Second \<le> now div Second"
    using assms(7) by (rule zdiv_mono1) (simp add: Second_def)
  then have "(expiresAt + zoneOffset UTC) div Second < now div Second"
    by (simp add: UTC_def Second_def)
  with select_live_distinct [OF assms(1,2), of "db_now e"] assms(3,4,5,6) show ?thesis
    by (simp add: receiveHandler_def now_less_stored)
qed



section \<open>Storing twice under one code\<close>

lemma filter_code_insert_or_replace:
  "filter (\<lambda>r. code r = c) (insert_or_replace now c d x t) =
     [\<lparr>code = c, data = d, expires_at = x, created_at = now\<rparr>]"
  by (simp add: insert_or_replace_def filter_empty_conv)

lemma select_live_insert_or_replace:
  "select_live n c (insert_or_replace now c d x t) =
     (if n < x then [\<lparr>code = c, data = d, expires_at = x, created_at = now\<rparr>] else [])"
  by (simp add: select_live_def insert_or_replace_def filter_empty_conv)

lemma receive_after_insert:
  "\<not> db_fails e \<Longrightarrow>
   receiveHandler e c (insert_or_replace now c d x t) =
     (if db_now e < x then Response StatusOK (Json [(''data'', Str d)])
      else Response StatusNotFound (Text ''Code not found or expired''))"
  by (simp add: receiveHandler_def select_live_insert_or_replace)

text \<open>
  Claim C6: after \<open>put(c, d1, ttl1)\<close> and then \<open>put(c, d2, ttl2)\<close>, the read returns
  \<open>d2\<close> with the expiry derived from \<open>ttl2\<close>. The handler does not derive the expiry from
  the ttl: two stores by a process in UTC at time 0, the second asking for 30 minutes,
  leave one row with the data of the second and the expiry of 10 minutes, and a read
  when the database's clock says 20 minutes, which is before \<open>0 + 30\<close> minutes, answers
  not found.
\<close>

theorem second_ttl_not_honoured:
  "snd (shareHandler (timeString UTC) \<lparr>proc_now = 0, db_now = datetime_now 0, db_fails = False\<rparr>
          (Some \<lparr>Code = ''ABC1'', Data = ''d2'', ExpiresMinutes = 30\<rparr>)
      (snd (shareHandler (timeString UTC) \<lparr>proc_now = 0, db_now = datetime_now 0, db_fails = False\<rparr>
          (Some \<lparr>Code = ''ABC1'', Data = ''d1'', ExpiresMinutes = 5\<rparr>) [])))
     = [\<lparr>code = ''ABC1'', data = ''d2'', expires_at = timeString UTC (0 + 10 * Minute),
          created_at = datetime_now 0\<rparr>]
   \<and> receiveHandler \<lparr>proc_now = 20 * Minute, db_now = datetime_now (20 * Minute), db_fails = False\<rparr>
       ''ABC1''
       [\<lparr>code = ''ABC1'', data = ''d2'', expires_at = timeString UTC (0 + 10 * Minute),
          created_at = datetime_now 0\<rparr>]
     = Response StatusNotFound (Text ''Code not found or expired'')
   \<and> 20 * Minute < 0 + 30 * Minute
   \<and> Response StatusNotFound (Text ''Code not found or expired'')
       \<noteq> Response StatusOK (Json [(''data'', Str ''d2'')])"
  by (simp add: shareHandler_def insert_or_replace_def receiveHandler_def select_live_def
      text_defs status_defs)

text \<open>
  What does hold of two stores under one code, one after the other: neither reports a
  conflict (both answer 201 whatever the table held), the table then has one row under
  the code, with the data of the second store and the expiry that the second store
  computed, ten minutes after its own process time; a read answers with the data of the
  second store while the database's now is before that expiry and not found from then
  on, and never with the data of the first store.
\<close>

lemma last_write_wins:
  fixes e3 :: "'v::linorder env"
  assumes "Code req1 = c" and "Code req2 = c" and "c \<noteq> []"
    and "Data req1 \<noteq> []" and "Data req2 \<noteq> []"
    and "\<not> db_fails e1" and "\<not> db_fails e2" and "\<not> db_fails e3"
  shows "\<exists>b1 t1 b2 t2 row.
           shareHandler enc e1 (Some req1) t = (Response StatusCreated b1, t1)
         \<and> shareHandler enc e2 (Some req2) t1 = (Response StatusCreated b2, t2)
         \<and> filter (\<lambda>r. code r = c) t2 = [row]
         \<and> data row = Data req2
         \<and> expires_at row = enc (proc_now e2 + 10 * Minute)
         \<and> receiveHandler e3 c t2 =
             (if db_now e3 < expires_at row
              then Response StatusOK (Json [(''data'', Str (Data req2))])
              else Response StatusNotFound (Text ''Code not found or expired''))"
  using assms
  by (simp add: shareHandler_created filter_code_insert_or_replace receive_after_insert)

section \<open>The two clocks\<close>

lemma cleanupTick_table:
  "\<not> db_fails e \<Longrightarrow> fst (cleanupTick e ra t) = filter (\<lambda>r. db_now e \<le> expires_at r) t"
  by (simp add: cleanupTick_def delete_expired_def not_less)

lemma exists_after_sweep:
  "\<not> db_fails e \<Longrightarrow>
   select_exists c (fst (cleanupTick e ra (insert_or_replace now c d x t))) = (\<not> x < db_now e)"
  by (auto simp add: cleanupTick_table select_exists_def insert_or_replace_def filter_empty_conv)

text \<open>
  Claim C9: the expiry that a store writes is computed from the clock of the server
  process (and converted by the driver, \<open>enc\<close>), and both the read and the sweep compare
  it with the database's own now. So a share stored at process time \<open>proc_now e1\<close> is
  read at database time \<open>db_now e2\<close> exactly when
  \<open>db_now e2 < enc (proc_now e1 + 10 * Minute)\<close>, and survives a sweep exactly when
  \<open>enc (proc_now e1 + 10 * Minute)\<close> is not before \<open>db_now e2\<close>: neither the database's
  clock at the store nor the process's clock at the read or the sweep plays a part.
\<close>

theorem liveness_compares_two_clocks:
  fixes e2 :: "'v::linorder env"
  assumes "Code req \<noteq> []" and "Data req \<noteq> []" and "\<not> db_fails e1" and "\<not> db_fails e2"
  shows "receiveHandler e2 (Code req) (snd (shareHandler enc e1 (Some req) t)) =
           (if db_now e2 < enc (proc_now e1 + 10 * Minute)
            then Response StatusOK (Json [(''data'', Str (Data req))])
            else Response StatusNotFound (Text ''Code not found or expired''))
       \<and> select_exists (Code req) (fst (cleanupTick e2 ra (snd (shareHandler enc e1 (Some req) t))))
           = (\<not> enc (proc_now e1 + 10 * Minute) < db_now e2)"
  using assms by (simp add: shareHandler_created receive_after_insert exists_after_sweep)

text \<open>
  An instance where the two do not agree: the driver writes the process's local time,
  two hours ahead of the database's clock. A share stored at time 0 is still read, and
  still kept by the sweep, sixty minutes later.
\<close>

theorem liveness_compares_two_clocks_witness:
  "receiveHandler \<lparr>proc_now = 60 * Minute, db_now = 60 * Minute, db_fails = False\<rparr> ''ABC1''
     (snd (shareHandler (\<lambda>t. t + 120 * Minute) \<lparr>proc_now = 0, db_now = 0, db_fails = False\<rparr>
        (Some \<lparr>Code = ''ABC1'', Data = ''blob'', ExpiresMinutes = 10\<rparr>) []))
     = Response StatusOK (Json [(''data'', Str ''blob'')])
   \<and> select_exists ''ABC1''
       (fst (cleanupTick \<lparr>proc_now = 60 * Minute, db_now = 60 * Minute, db_fails = False\<rparr> False
         (snd (shareHandler (\<lambda>t. t + 120 * Minute) \<lparr>proc_now = 0, db_now = 0, db_fails = False\<rparr>
            (Some \<lparr>Code = ''ABC1'', Data = ''blob'', ExpiresMinutes = 10\<rparr>) []))))"
  using liveness_compares_two_clocks
    [of "\<lparr>Code = ''ABC1'', Data = ''blob'', ExpiresMinutes = 10\<rparr>"
        "\<lparr>proc_now = 0, db_now = 0 :: int, db_fails = False\<rparr>"
        "\<lparr>proc_now = 60 * Minute, db_now = 60 * Minute, db_fails = False\<rparr>"
        "\<lambda>t. t + 120 * Minute" "[]" False]
  by (simp add: Minute_def Second_def)

text \<open>
  When the two agree (the driver's conversion keeps the order, and the database's now is
  the conversion of its clock's reading \<open>n\<close>), the share is read exactly while
  \<open>n < proc_now e1 + 10 * Minute\<close>.
\<close>

lemma liveness_when_clocks_agree:
  fixes e2 :: "'v::linorder env"
  assumes "Code req \<noteq> []" and "Data req \<noteq> []" and "\<not> db_fails e1" and "\<not> db_fails e2"
    and "strict_mono enc" and "db_now e2 = enc n"
  shows "receiveHandler e2 (Code req) (snd (shareHandler enc e1 (Some req) t)) =
           (if n < proc_now e1 + 10 * Minute
            then Response StatusOK (Json [(''data'', Str (Data req))])
            else Response StatusNotFound (Text ''Code not found or expired''))"
  using assms by (simp add: shareHandler_created receive_after_insert strict_mono_less)

text \<open>
  With the two forms of text: the share is read as long as the second of the
  database's now is not after the second of the expiry on the wall clock of the
  process.
\<close>

lemma liveness_in_whole_seconds:
  fixes e2 :: "dbtext env"
  assumes "Code req \<noteq> []" and "Data req \<noteq> []" and "\<not> db_fails e1" and "\<not> db_fails e2"
    and "db_now e2 = datetime_now n"
  shows "receiveHandler e2 (Code req) (snd (shareHandler (timeString z) e1 (Some req) t)) =
           (if n div Second \<le> (proc_now e1 + 10 * Minute + zoneOffset z) div Second
            then Response StatusOK (Json [(''data'', Str (Data req))])
            else Response StatusNotFound (Text ''Code not found or expired''))"
  using assms by (simp add: shareHandler_created receive_after_insert now_less_stored)

section \<open>The sweep\<close>

text \<open>
  What one tick does when the database call succeeds: the rows that stay are the rows
  with \<open>db_now e \<le> expires_at\<close> (lemma \<open>cleanupTick_table\<close>), and the count logged is
  the number of rows that went.
\<close>

lemma cleanupTick_failed: "db_fails e \<Longrightarrow> cleanupTick e ra t = (t, Some CleanupError)"
  by (simp add: cleanupTick_def)





text \<open>
  On the tables that the program holds the strict comparison of the sweep and a
  non-strict one remove the same rows, since a stored text is never the text of
  \<open>datetime('now')\<close>; and a row is removed exactly when the read no longer returns it.
\<close>

lemma sweep_strictness_immaterial:
  "(timeString z t < datetime_now n) = (timeString z t \<le> datetime_now n)"
  using stored_never_now [of z t n] by (simp add: le_less)

lemma swept_iff_not_read:
  "(timeString z t < datetime_now n) = (\<not> datetime_now n < timeString z t)"
  using stored_never_now [of z t n] by (auto simp: not_less le_less)

section \<open>One row for each code\<close>

lemma distinct_insert_or_replace:
  "distinct (map code t) \<Longrightarrow> distinct (map code (insert_or_replace now c d x t))"
  by (auto simp: insert_or_replace_def distinct_map_filter)

lemma distinct_shareHandler:
  "distinct (map code t) \<Longrightarrow> distinct (map code (snd (shareHandler enc e b t)))"
  by (auto simp: shareHandler_def Let_def distinct_insert_or_replace split: option.splits)

lemma distinct_handler:
  "distinct (map code t) \<Longrightarrow> distinct (map code (snd (handler enc e rq r t)))"
  by (cases r) (simp_all add: handler_def distinct_shareHandler)

lemma distinct_cleanupTick:
  "distinct (map code t) \<Longrightarrow> distinct (map code (fst (cleanupTick e ra t)))"
  by (auto simp: cleanupTick_def delete_expired_def distinct_map_filter)

lemma distinct_after: "distinct (map code t) \<Longrightarrow> distinct (map code (after enc ev t))"
  by (cases ev) (simp_all add: distinct_handler distinct_cleanupTick)

lemma distinct_run: "distinct (map code t) \<Longrightarrow> distinct (map code (run enc evs t))"
  by (induction evs arbitrary: t) (simp_all add: distinct_after)

lemma distinct_one_row:
  "distinct (map code t) \<Longrightarrow> length (filter (\<lambda>r. code r = c) t) \<le> 1"
proof (induction t)
  case Nil
  then show ?case by simp
next
  case (Cons a t)
  show ?case
  proof (cases "code a = c")
    case True
    with Cons.prems have "\<forall>r \<in> set t. code r \<noteq> c"
      by (metis distinct.simps(2) imageI list.simps(9) set_map)
    then have "filter (\<lambda>r. code r = c) t = []" by (simp add: filter_empty_conv)
    with True show ?thesis by simp
  next
    case False
    with Cons show ?thesis by simp
  qed
qed

lemma select_live_sub: "length (select_live now c t) \<le> length (filter (\<lambda>r. code r = c) t)"
proof -
  have "select_live now c t = filter (\<lambda>r. now < expires_at r) (filter (\<lambda>r. code r = c) t)"
    by (simp add: select_live_def conj_commute)
  then show ?thesis by (simp del: filter_filter)
qed

text \<open>
  Claim C7: after any sequence of stores, reads, existence checks, health checks and
  sweeps on the table that starts empty, whatever the clocks say and whichever database
  calls fail, the table has at most one row under any code, and so at most one row
  that a read at any time can select.
\<close>

theorem one_row_per_code:
  "length (filter (\<lambda>r. code r = c) (run enc evs [])) \<le> 1
   \<and> length (select_live now c (run enc evs [])) \<le> 1"
proof -
  have "distinct (map code (run enc evs []))" by (rule distinct_run) simp
  then have a: "length (filter (\<lambda>r. code r = c) (run enc evs [])) \<le> 1"
    by (rule distinct_one_row)
  with select_live_sub [of now c "run enc evs []"] show ?thesis by simp
qed

section \<open>Admission\<close>

lemma cleanPath_health: "cleanPath ''/health'' = ''/health''"
  by (simp add: cleanPath_def pathClean_def)

lemma matchRoute_health: "matchRoute ''GET'' ''/health'' = Matched HealthRoute"
  by (simp add: matchRoute_def matchPath_def cleanPath_health)

text \<open>
  Paths that the router cleans are redirected and reach neither a handler nor the
  middleware: a doubled slash, and \<open>.\<close> or \<open>..\<close> where a code would stand.
\<close>

lemma matchRoute_unclean:
  "matchRoute ''GET'' ''//health'' = Redirect ''/health''
   \<and> matchRoute ''GET'' ''/check/.'' = Redirect ''/check''
   \<and> matchRoute ''GET'' ''/receive/..'' = Redirect ''/''
   \<and> matchRoute ''GET'' ''/health/'' = NoMatch"
  by (simp add: matchRoute_def matchPath_def cleanPath_def pathClean_def isSegment_def)

lemma serve_redirect:
  "cleanPath (Path rq) \<noteq> Path rq \<Longrightarrow>
   serve enc e rq gt = (MovedPermanently (cleanPath (Path rq)), gt)"
  by (simp add: serve_def matchRoute_def)

lemma Every_Minute: "Every Minute = PerSecond (1 / 60)"
  by (simp add: Every_def Minute_def Second_def)

lemma Allow_refused:
  "limit lm = PerSecond r \<Longrightarrow> advance r lm t < 1 \<Longrightarrow> Allow t lm = (False, lm)"
  by (simp add: Allow_def)

lemma advance_full:
  assumes "0 \<le> r" and "tokens lm = of_int (burst lm)"
  shows "advance r lm t = of_int (burst lm)"
proof -
  define D where "D = tokensFromDuration r (t - (if t < last lm then t else last lm))"
  have "0 \<le> D"
    using assms(1) by (simp add: D_def tokensFromDuration_def Second_def)
  moreover have "advance r lm t =
      (if tokens lm + D > of_int (burst lm) then of_int (burst lm) else tokens lm + D)"
    by (simp add: advance_def D_def Let_def)
  ultimately show ?thesis using assms(2) by auto
qed

lemma Allow_fresh:
  "Allow t (NewLimiter (Every Minute) 10) =
     (True, \<lparr>limit = PerSecond (1 / 60), burst = 10, tokens = 9, last = t\<rparr>)"
proof -
  have "advance (1 / 60) (NewLimiter (PerSecond (1 / 60)) 10) t = 10"
    using advance_full [of "1 / 60" "NewLimiter (PerSecond (1 / 60)) 10" t]
    by (simp add: NewLimiter_def)
  then show ?thesis
    by (simp add: Allow_def Every_Minute) (simp add: NewLimiter_def)
qed

lemma Allow_same_instant:
  "tokens lm \<le> of_int (burst lm) \<Longrightarrow>
   Allow t (lm\<lparr>limit := PerSecond r, last := t\<rparr>) =
     (if 1 \<le> tokens lm then (True, lm\<lparr>limit := PerSecond r, last := t, tokens := tokens lm - 1\<rparr>)
      else (False, lm\<lparr>limit := PerSecond r, last := t\<rparr>))"
  by (simp add: Allow_def advance_def tokensFromDuration_def)

lemma Allow_a_minute_later:
  "Allow (t + Minute) \<lparr>limit = PerSecond (1 / 60), burst = 10, tokens = 0, last = t\<rparr> =
     (True, \<lparr>limit = PerSecond (1 / 60), burst = 10, tokens = 0, last = t + Minute\<rparr>)"
  by (simp add: Allow_def advance_def tokensFromDuration_def Minute_def Second_def)

text \<open>
  The answers of the limiter that \<open>getRateLimiter\<close> makes, whatever the time \<open>t\<close> of
  the first call: ten calls at \<open>t\<close> pass and the eleventh does not; a minute later one
  call passes and the next does not.
\<close>

lemma fresh_bucket_answers:
  "allows (replicate 11 t @ [t + Minute, t + Minute]) (NewLimiter (Every Minute) 10)
     = replicate 10 True @ [False, True, False]"
  using Allow_same_instant [of "\<lparr>limit = PerSecond (1 / 60), burst = 10, tokens = 9, last = t\<rparr>" t "1 / 60"]
    Allow_same_instant [of "\<lparr>limit = PerSecond (1 / 60), burst = 10, tokens = 8, last = t\<rparr>" t "1 / 60"]
    Allow_same_instant [of "\<lparr>limit = PerSecond (1 / 60), burst = 10, tokens = 7, last = t\<rparr>" t "1 / 60"]
    Allow_same_instant [of "\<lparr>limit = PerSecond (1 / 60), burst = 10, tokens = 6, last = t\<rparr>" t "1 / 60"]
    Allow_same_instant [of "\<lparr>limit = PerSecond (1 / 60), burst = 10, tokens = 5, last = t\<rparr>" t "1 / 60"]
    Allow_same_instant [of "\<lparr>limit = PerSecond (1 / 60), burst = 10, tokens = 4, last = t\<rparr>" t "1 / 60"]
    Allow_same_instant [of "\<lparr>limit = PerSecond (1 / 60), burst = 10, tokens = 3, last = t\<rparr>" t "1 / 60"]
    Allow_same_instant [of "\<lparr>limit = PerSecond (1 / 60), burst = 10, tokens = 2, last = t\<rparr>" t "1 / 60"]
    Allow_same_instant [of "\<lparr>limit = PerSecond (1 / 60), burst = 10, tokens = 1, last = t\<rparr>" t "1 / 60"]
    Allow_same_instant [of "\<lparr>limit = PerSecond (1 / 60), burst = 10, tokens = 0, last = t\<rparr>" t "1 / 60"]
    Allow_same_instant [of "\<lparr>limit = PerSecond (1 / 60), burst = 10, tokens = 0, last = t + Minute\<rparr>" "t + Minute" "1 / 60"]
  by (simp add: numeral_eq_Suc Allow_fresh Allow_a_minute_later)

text \<open>
  Claim C2: the bucket refills at 10 tokens a minute and holds 10. The limiter that
  \<open>getRateLimiter\<close> makes holds 10 and refills at one token a minute. Thirteen health
  checks of one fresh client, eleven at time 0 and two a minute later: the first ten
  pass, the eleventh is refused, a minute later one passes and the next is refused. A
  bucket of 10 tokens a minute would let that last one pass.
\<close>

theorem limiter_refills_one_token_a_minute:
  "map statusOf (serveAll id (map healthAt (replicate 11 0 @ [Minute, Minute])) (emptyRegistry, []))
     = replicate 10 200 @ [429, 200, 429]
   \<and> allows (replicate 11 0 @ [Minute, Minute]) (NewLimiter (PerSecond (10 / 60)) 10)
     = replicate 10 True @ [False, True, True]
   \<and> heap (snd (getRateLimiter ''10.0.0.1:5000'' emptyRegistry))
     = [NewLimiter (PerSecond (1 / 60)) 10]"
  by (simp add: healthAt_def serve_def matchRoute_health rateLimitMiddleware_def
      getRateLimiter_def lookupLimiter_def installLimiter_def limiterAllow_def emptyRegistry_def
      statusOf_def healthHandler_def handler_def status_defs Allow_def NewLimiter_def Every_def
      Minute_def Second_def advance_def tokensFromDuration_def numeral_eq_Suc)

text \<open>Every pointer that the registry holds or hands out is a position of its heap.\<close>

lemma pointers_ok_empty: "pointers_ok emptyRegistry"
  by (simp add: pointers_ok_def emptyRegistry_def)

lemma pointers_ok_installLimiter:
  assumes "pointers_ok g"
  shows "pointers_ok (snd (installLimiter ip g))
       \<and> fst (installLimiter ip g) < length (heap (snd (installLimiter ip g)))"
proof -
  have "ran ((rateLimiters g)(ip \<mapsto> length (heap g)))
          \<subseteq> insert (length (heap g)) (ran (rateLimiters g))"
    by (auto simp: ran_def split: if_splits)
  with assms show ?thesis
    by (auto simp: pointers_ok_def installLimiter_def Let_def)
qed

lemma pointers_ok_getRateLimiter:
  assumes "pointers_ok g"
  shows "pointers_ok (snd (getRateLimiter ip g))
       \<and> fst (getRateLimiter ip g) < length (heap (snd (getRateLimiter ip g)))"
proof (cases "lookupLimiter ip g")
  case None
  with pointers_ok_installLimiter [OF assms, of ip] show ?thesis
    by (simp add: getRateLimiter_def)
next
  case (Some p)
  then have "p \<in> ran (rateLimiters g)" by (auto simp: lookupLimiter_def ran_def)
  with assms Some show ?thesis by (auto simp: getRateLimiter_def pointers_ok_def)
qed

lemma pointers_ok_limiterAllow:
  "pointers_ok g \<Longrightarrow> pointers_ok (snd (limiterAllow t p g))"
  by (simp add: pointers_ok_def limiterAllow_def split: prod.splits)

text \<open>
  A call that runs its two sections with no other call in between is \<open>getRateLimiter\<close>;
  a second call for the address then finds the limiter of the first.
\<close>

lemma getRateLimiter_sections:
  "run_calls [0, 0] ([AtRLock ip], g) = ([Returned (fst (getRateLimiter ip g))], snd (getRateLimiter ip g))"
  by (simp add: step_call_def getRateLimiter_def split: option.splits prod.splits)

lemma getRateLimiter_again:
  "getRateLimiter ip (snd (getRateLimiter ip g)) = getRateLimiter ip g"
  by (simp add: getRateLimiter_def lookupLimiter_def installLimiter_def Let_def split: option.splits)

lemma sequential_calls_share_limiter:
  "fst (run_calls [0, 0, 1, 1] ([AtRLock ip, AtRLock ip], g))
     = [Returned (fst (getRateLimiter ip g)), Returned (fst (getRateLimiter ip g))]"
  by (simp add: step_call_def getRateLimiter_def lookupLimiter_def installLimiter_def Let_def split: option.splits prod.splits)

text \<open>
  Claim C3: concurrent first requests of one client never install two limiters. They
  do: two calls for one unseen address, both reading the map before either writes it,
  each make a limiter. The calls return different limiters, the heap holds two, and the
  map keeps the second, which replaced the first.
\<close>

theorem two_first_requests_install_two_limiters:
  "fst (run_calls [0, 1, 0, 1] ([AtRLock ''10.0.0.1:5000'', AtRLock ''10.0.0.1:5000''], emptyRegistry))
     = [Returned 0, Returned 1]
   \<and> heap (snd (run_calls [0, 1, 0, 1]
        ([AtRLock ''10.0.0.1:5000'', AtRLock ''10.0.0.1:5000''], emptyRegistry)))
     = [NewLimiter (Every Minute) 10, NewLimiter (Every Minute) 10]
   \<and> rateLimiters (snd (run_calls [0, 1, 0, 1]
        ([AtRLock ''10.0.0.1:5000'', AtRLock ''10.0.0.1:5000''], emptyRegistry))) ''10.0.0.1:5000''
     = Some 1"
  by (simp add: step_call_def lookupLimiter_def installLimiter_def emptyRegistry_def)

text \<open>
  Claim C10: every route that the router matches, the health check \<open>GET /health\<close>
  among them, is answered by the middleware when the limiter of the client's address
  refuses: the answer is 429, it is not the health handler's answer, and the table is
  as it was.
\<close>

theorem every_route_is_rate_limited:
  fixes e :: "'v::linorder env"
  assumes "matchRoute (Method rq) (Path rq) = Matched r"
    and "rateLimiters g (RemoteAddr rq) = Some p"
    and "fst (Allow (proc_now e) (heap g ! p)) = False"
  shows "fst (serve enc e rq (g, t)) = Response StatusTooManyRequests (Text ''Rate limit exceeded'')
       \<and> snd (snd (serve enc e rq (g, t))) = t
       \<and> matchRoute ''GET'' ''/health'' = Matched HealthRoute
       \<and> Response StatusTooManyRequests (Text ''Rate limit exceeded'') \<noteq> healthHandler"
  using assms
  by (auto simp: serve_def rateLimitMiddleware_def getRateLimiter_def lookupLimiter_def
      limiterAllow_def matchRoute_health healthHandler_def status_defs split: prod.splits)

theorem every_route_is_rate_limited_witness:
  "fst (serve id \<lparr>proc_now = 30 * Second, db_now = 0 :: int, db_fails = False\<rparr>
          \<lparr>Method = ''GET'', Path = ''/health'', RemoteAddr = ''10.0.0.1:5000'', Body = None\<rparr>
          (\<lparr>rateLimiters = [''10.0.0.1:5000'' \<mapsto> 0],
            heap = [\<lparr>limit = PerSecond (1 / 60), burst = 10, tokens = 0, last = 0\<rparr>]\<rparr>, []))
     = Response StatusTooManyRequests (Text ''Rate limit exceeded'')
   \<and> snd (snd (serve id \<lparr>proc_now = 30 * Second, db_now = 0 :: int, db_fails = False\<rparr>
          \<lparr>Method = ''GET'', Path = ''/health'', RemoteAddr = ''10.0.0.1:5000'', Body = None\<rparr>
          (\<lparr>rateLimiters = [''10.0.0.1:5000'' \<mapsto> 0],
            heap = [\<lparr>limit = PerSecond (1 / 60), burst = 10, tokens = 0, last = 0\<rparr>]\<rparr>, [])))
     = []
   \<and> matchRoute ''GET'' ''/health'' = Matched HealthRoute
   \<and> Response StatusTooManyRequests (Text ''Rate limit exceeded'') \<noteq> healthHandler"
proof -
  have "fst (Allow (30 * Second) \<lparr>limit = PerSecond (1 / 60), burst = 10, tokens = 0, last = 0\<rparr>)
          = False"
    by (simp add: Allow_def advance_def tokensFromDuration_def Second_def)
  then show ?thesis
    using every_route_is_rate_limited
      [of "\<lparr>Method = ''GET'', Path = ''/health'', RemoteAddr = ''10.0.0.1:5000'', Body = None\<rparr>"
          HealthRoute
          "\<lparr>rateLimiters = [''10.0.0.1:5000'' \<mapsto> 0],
            heap = [\<lparr>limit = PerSecond (1 / 60), burst = 10, tokens = 0, last = 0\<rparr>]\<rparr>"
          0 "\<lparr>proc_now = 30 * Second, db_now = 0 :: int, db_fails = False\<rparr>" id "[]"]
    by (simp add: matchRoute_health)
qed

end
